theory Spec2Isabelle
  imports Main "HOL-Library.Sublist"
begin

section \<open>Land Records backend: the application workflow handlers of index.js\<close>

text \<open>
  The Express handlers of \<^verbatim>\<open>index.js\<close> work on module-level arrays
  (\<^verbatim>\<open>users\<close>, \<^verbatim>\<open>plots\<close>, \<^verbatim>\<open>applications\<close>, \<^verbatim>\<open>notifications\<close>, \<^verbatim>\<open>payments\<close>,
  \<^verbatim>\<open>documents\<close>). Here the arrays are the fields of one state record, and every
  handler is a function from the state to a response and the state it leaves behind. The
  response is a sum: \<open>Inl\<close> an error response, \<open>Inr\<close> the JSON sent on success.
\<close>

subsection \<open>JavaScript values of a parsed JSON body\<close>

text \<open>
  Fields of \<^verbatim>\<open>req.body\<close> are whatever JSON the client sent. A number is kept as an
  integer: the handlers only look at its \<^verbatim>\<open>typeof\<close> and at whether it is zero.
\<close>

datatype jsval =
    JUndefined
  | JNull
  | JBool bool
  | JNum int
  | JStr string
  | JArr "jsval list"
  | JObj "(string \<times> jsval) list"

text \<open>\<^verbatim>\<open>!v\<close> is \<open>\<not> truthy v\<close>: arrays and objects are truthy even when empty.\<close>

fun truthy :: "jsval \<Rightarrow> bool" where
  "truthy JUndefined = False"
| "truthy JNull = False"
| "truthy (JBool b) = b"
| "truthy (JNum n) = (n \<noteq> 0)"
| "truthy (JStr s) = (s \<noteq> [])"
| "truthy (JArr xs) = True"
| "truthy (JObj kvs) = True"

text \<open>\<^verbatim>\<open>typeof v\<close>.\<close>

fun typeof :: "jsval \<Rightarrow> string" where
  "typeof JUndefined = ''undefined''"
| "typeof JNull = ''object''"
| "typeof (JBool b) = ''boolean''"
| "typeof (JNum n) = ''number''"
| "typeof (JStr s) = ''string''"
| "typeof (JArr xs) = ''object''"
| "typeof (JObj kvs) = ''object''"

text \<open>
  A template literal \<^verbatim>\<open>`text ${v}`\<close> converts \<^verbatim>\<open>v\<close> to a string. For a value parsed
  from JSON the conversion throws a TypeError in these cases: an object with a key
  \<^verbatim>\<open>toString\<close> of its own (the value under it is no function, and neither is one
  under \<^verbatim>\<open>valueOf\<close>, while the inherited \<^verbatim>\<open>valueOf\<close> returns the object itself), and
  an array with such an element, since \<^verbatim>\<open>join\<close> converts every element that is not
  \<^verbatim>\<open>null\<close>. Every other object is rendered by the inherited \<^verbatim>\<open>toString\<close>.
\<close>

fun tostring_throws :: "jsval \<Rightarrow> bool" where
  "tostring_throws (JObj kvs) = (''toString'' \<in> set (map fst kvs))"
| "tostring_throws (JArr xs) = (\<exists>x \<in> set xs. tostring_throws x)"
| "tostring_throws v = False"

text \<open>
  Where the conversion does not throw, the message is kept as the literal's text and the
  interpolated value, without rendering the value as a string.
\<close>

datatype message_text = Lit string | Template string jsval

subsection \<open>The in-memory stores\<close>

record user =
  u_id :: string
  u_name :: string
  u_email :: string
  u_password :: string
  u_role :: string
  u_language :: string

text \<open>The GIS attributes of a plot (location, boundaries) are read by no handler here.\<close>

record plot =
  plotId :: string
  area :: nat
  plot_type :: string
  currentOwnerEmail :: string
  plot_status :: string

record history_entry =
  h_by :: string
  h_at :: nat
  h_status :: jsval
  h_remarks :: jsval

record application =
  app_id :: string
  applicationType :: jsval
  applicant :: jsval
  applicantEmail :: string
  app_plotId :: jsval
  applicationStatus :: jsval
  app_date :: nat
  app_documents :: jsval
  reason :: jsval
  officerAssigned :: "string option"
  paymentStatus :: string
  history :: "history_entry list"

record notification =
  n_id :: string
  toUserId :: string
  message :: message_text
  ts :: nat

record payment =
  pay_id :: string
  pay_applicationId :: jsval
  amount :: jsval
  pay_status :: string
  paidBy :: string
  pay_date :: nat

record document =
  doc_id :: string
  fileName :: string
  mimetype :: string
  doc_size :: nat
  uploadedBy :: string
  uploadedAt :: nat

record state =
  users :: "user list"
  plots :: "plot list"
  applications :: "application list"
  notifications :: "notification list"
  payments :: "payment list"
  documents :: "document list"

text \<open>
  \<^verbatim>\<open>req.user\<close>: the payload of the verified token, \<^verbatim>\<open>{id, role, email}\<close> as signed by
  the login handler. Verification of the token itself is not modelled; a handler is
  given the payload.
\<close>

record caller =
  c_id :: string
  c_role :: string
  c_email :: string

text \<open>
  The values that the calls of \<^verbatim>\<open>uuidv4()\<close> and \<^verbatim>\<open>new Date()\<close> made by one
  handler return, in the order of the calls.
\<close>

record env =
  uuid1 :: string
  uuid2 :: string
  date1 :: nat
  date2 :: nat

subsection \<open>Responses\<close>

text \<open>
  One constructor for each error response the handlers send, and \<open>TypeError\<close> for the
  exception thrown when a property of \<^verbatim>\<open>undefined\<close> is read (Express answers 500).
\<close>

datatype error =
    AccessDenied
  | MissingFields
  | InvalidApplicationType
  | PlotNotYours
  | NotFound
  | InvalidPaymentDetails
  | ApplicationNotFound
  | AlreadyPaid
  | TypeError

fun http_status :: "error \<Rightarrow> nat" where
  "http_status AccessDenied = 403"
| "http_status MissingFields = 400"
| "http_status InvalidApplicationType = 400"
| "http_status PlotNotYours = 400"
| "http_status NotFound = 404"
| "http_status InvalidPaymentDetails = 400"
| "http_status ApplicationNotFound = 404"
| "http_status AlreadyPaid = 409"
| "http_status TypeError = 500"

fun error_text :: "error \<Rightarrow> string" where
  "error_text AccessDenied = ''Access denied''"
| "error_text MissingFields = ''Missing fields''"
| "error_text InvalidApplicationType = ''Invalid application type''"
| "error_text PlotNotYours = ''Plot does not belong to you''"
| "error_text NotFound = ''Not found''"
| "error_text InvalidPaymentDetails = ''Missing or invalid payment details''"
| "error_text ApplicationNotFound = ''Application not found''"
| "error_text AlreadyPaid = ''Already paid''"
| "error_text TypeError = ''TypeError''"

text \<open>
  The error taxonomy of the specification, read onto the responses: a rejection for
  malformed or missing input, for a missing role or ownership, for an entity that does
  not exist, for a state that forbids the operation; an uncaught exception is none of
  the four.
\<close>

datatype error_class =
  ValidationError | AuthorizationError | NotFoundError | ConflictError | RuntimeError

fun classify :: "error \<Rightarrow> error_class" where
  "classify AccessDenied = AuthorizationError"
| "classify MissingFields = ValidationError"
| "classify InvalidApplicationType = ValidationError"
| "classify PlotNotYours = AuthorizationError"
| "classify NotFound = NotFoundError"
| "classify InvalidPaymentDetails = ValidationError"
| "classify ApplicationNotFound = NotFoundError"
| "classify AlreadyPaid = ConflictError"
| "classify TypeError = RuntimeError"

subsection \<open>Helpers\<close>

text \<open>
  \<^verbatim>\<open>authorizeRoles(allowedRoles)\<close>, after the token has been verified: the request goes
  on when the caller's role is among the allowed ones, else it is answered 403.
\<close>

definition authorizeRoles :: "string list \<Rightarrow> caller \<Rightarrow> error option" where
  "authorizeRoles allowedRoles u =
     (if \<not> (c_role u \<in> set allowedRoles) then Some AccessDenied else None)"

text \<open>\<^verbatim>\<open>sendNotification(toUserId, message)\<close>, with the id and the date it draws.\<close>

definition sendNotification :: "string \<Rightarrow> nat \<Rightarrow> string \<Rightarrow> message_text \<Rightarrow> state \<Rightarrow> state" where
  "sendNotification uuid now to msg s =
     s\<lparr>notifications := notifications s @
          [\<lparr>n_id = uuid, toUserId = to, message = msg, ts = now\<rparr>]\<rparr>"

text \<open>
  \<^verbatim>\<open>xs.find(p)\<close> is \<^const>\<open>find\<close>. The object it returns is the array's own element, so
  an assignment to one of its fields changes the first element that satisfies \<open>p\<close>.
\<close>

fun update_first :: "('a \<Rightarrow> bool) \<Rightarrow> ('a \<Rightarrow> 'a) \<Rightarrow> 'a list \<Rightarrow> 'a list" where
  "update_first p f [] = []"
| "update_first p f (x # xs) = (if p x then f x # xs else x # update_first p f xs)"

text \<open>
  \<^verbatim>\<open>xs.filter(cb)\<close> for a callback that may throw: the callback runs on the elements
  in order, and the first exception ends the call. On an empty array it never runs.
\<close>

fun filter_throwing :: "('a \<Rightarrow> error + bool) \<Rightarrow> 'a list \<Rightarrow> error + 'a list" where
  "filter_throwing cb [] = Inr []"
| "filter_throwing cb (x # xs) =
     (case cb x of
        Inl e \<Rightarrow> Inl e
      | Inr b \<Rightarrow>
          (case filter_throwing cb xs of
             Inl e \<Rightarrow> Inl e
           | Inr ys \<Rightarrow> Inr (if b then x # ys else ys)))"

subsection \<open>GET /api/applications\<close>

definition get_applications :: "caller \<Rightarrow> state \<Rightarrow> (error + application list) \<times> state" where
  "get_applications u s =
     (case authorizeRoles [''citizen'', ''officer'', ''admin''] u of
        Some e \<Rightarrow> (Inl e, s)
      | None \<Rightarrow>
          if c_role u = ''citizen''
          then (Inr (filter (\<lambda>a. applicantEmail a = c_email u) (applications s)), s)
          else (Inr (applications s), s))"

subsection \<open>POST /api/applications\<close>

text \<open>The fields the handler destructures from \<^verbatim>\<open>req.body\<close>.\<close>

record application_request =
  req_applicationType :: jsval
  req_plotId :: jsval
  req_documents :: jsval
  req_reason :: jsval

text \<open>
  \<^verbatim>\<open>req.user.name\<close> is \<^verbatim>\<open>undefined\<close>: the token payload has no \<^verbatim>\<open>name\<close>.
\<close>

definition post_applications ::
  "caller \<Rightarrow> application_request \<Rightarrow> env \<Rightarrow> state \<Rightarrow> (error + application) \<times> state" where
  "post_applications u req e s =
     (case authorizeRoles [''citizen''] u of
        Some err \<Rightarrow> (Inl err, s)
      | None \<Rightarrow>
          if \<not> truthy (req_applicationType req) \<or> \<not> truthy (req_plotId req)
             \<or> \<not> truthy (req_documents req)
          then (Inl MissingFields, s)
          else if \<not> (req_applicationType req
                       \<in> set [JStr ''mutation'', JStr ''correction'', JStr ''conversion''])
          then (Inl InvalidApplicationType, s)
          else
            (case find (\<lambda>p. JStr (plotId p) = req_plotId req
                             \<and> currentOwnerEmail p = c_email u) (plots s) of
               None \<Rightarrow> (Inl PlotNotYours, s)
             | Some p \<Rightarrow>
                 let app = \<lparr>app_id = uuid1 e,
                            applicationType = req_applicationType req,
                            applicant = JUndefined,
                            applicantEmail = c_email u,
                            app_plotId = req_plotId req,
                            applicationStatus = JStr ''submitted'',
                            app_date = date1 e,
                            app_documents = req_documents req,
                            reason = (if truthy (req_reason req) then req_reason req else JNull),
                            officerAssigned = None,
                            paymentStatus = ''pending'',
                            history = []\<rparr>;
                     s1 = s\<lparr>applications := applications s @ [app]\<rparr>;
                     s2 = sendNotification (uuid2 e) (date2 e) (c_id u)
                            (Lit ''Application submitted successfully. Please complete payment.'') s1
                 in (Inr app, s2)))"

subsection \<open>POST /api/applications/:id/status\<close>

text \<open>
  \<^verbatim>\<open>appId\<close> is a path parameter, a string; \<^verbatim>\<open>status\<close> and \<^verbatim>\<open>remarks\<close> come from
  the body. An array is truthy, so \<^verbatim>\<open>if (!app.history) app.history = []\<close> never fires
  on an application made by the submission handler. The arguments of
  \<^verbatim>\<open>sendNotification\<close> are evaluated after the application was changed: reading
  \<^verbatim>\<open>.id\<close> of \<^verbatim>\<open>undefined\<close> throws when no user has the applicant's email, and then
  the template literal throws when \<^verbatim>\<open>status\<close> has no string conversion. In both cases
  the changed application stays and no notification is stored.
\<close>

definition post_applications_status ::
  "caller \<Rightarrow> string \<Rightarrow> jsval \<Rightarrow> jsval \<Rightarrow> env \<Rightarrow> state \<Rightarrow> (error + application) \<times> state" where
  "post_applications_status u appId status remarks e s =
     (case authorizeRoles [''officer'', ''admin''] u of
        Some err \<Rightarrow> (Inl err, s)
      | None \<Rightarrow>
          (case find (\<lambda>a. app_id a = appId) (applications s) of
             None \<Rightarrow> (Inl NotFound, s)
           | Some app \<Rightarrow>
               let assign = (\<lambda>a. a\<lparr>applicationStatus := status,
                                      history := history a @
                                        [\<lparr>h_by = c_role u, h_at = date1 e,
                                          h_status = status, h_remarks = remarks\<rparr>]\<rparr>);
                   app' = assign app;
                   s1 = s\<lparr>applications :=
                           update_first (\<lambda>a. app_id a = appId) assign (applications s)\<rparr>
               in (case find (\<lambda>usr. u_email usr = applicantEmail app') (users s1) of
                     None \<Rightarrow> (Inl TypeError, s1)
                   | Some usr \<Rightarrow>
                       if tostring_throws status then (Inl TypeError, s1)
                       else
                         (Inr app',
                          sendNotification (uuid1 e) (date2 e) (u_id usr)
                            (Template ''Application status updated to: '' status) s1))))"

subsection \<open>POST /api/payments/initiate\<close>

text \<open>
  The JSON of the success response, \<^verbatim>\<open>{ paymentId, status: "completed" }\<close>. Where the
  handler builds its message, \<^verbatim>\<open>applicationId\<close> is strictly equal to the id of the
  application found, a string: the template literal cannot throw.
\<close>

record payment_response =
  resp_paymentId :: string
  resp_status :: string

definition post_payments_initiate ::
  "caller \<Rightarrow> jsval \<Rightarrow> jsval \<Rightarrow> env \<Rightarrow> state \<Rightarrow> (error + payment_response) \<times> state" where
  "post_payments_initiate u applicationId amt e s =
     (case authorizeRoles [''citizen''] u of
        Some err \<Rightarrow> (Inl err, s)
      | None \<Rightarrow>
          if \<not> truthy applicationId \<or> typeof amt \<noteq> ''number''
          then (Inl InvalidPaymentDetails, s)
          else
            (case find (\<lambda>a. JStr (app_id a) = applicationId
                             \<and> applicantEmail a = c_email u) (applications s) of
               None \<Rightarrow> (Inl ApplicationNotFound, s)
             | Some app \<Rightarrow>
                 if paymentStatus app = ''completed'' then (Inl AlreadyPaid, s)
                 else
                   let paymentId = uuid1 e;
                       s1 = s\<lparr>payments := payments s @
                               [\<lparr>pay_id = paymentId,
                                 pay_applicationId = applicationId,
                                 amount = amt,
                                 pay_status = ''initiated'',
                                 paidBy = c_email u,
                                 pay_date = date1 e\<rparr>]\<rparr>;
                       s2 = s1\<lparr>applications :=
                               update_first (\<lambda>a. JStr (app_id a) = applicationId
                                                  \<and> applicantEmail a = c_email u)
                                 (\<lambda>a. a\<lparr>paymentStatus := ''completed''\<rparr>) (applications s1)\<rparr>;
                       s3 = sendNotification (uuid2 e) (date2 e) (c_id u)
                              (Template ''Payment successful for application: '' applicationId) s2
                   in (Inr \<lparr>resp_paymentId = paymentId, resp_status = ''completed''\<rparr>, s3)))"

subsection \<open>GET /api/notifications\<close>

text \<open>
  \<^verbatim>\<open>user\<close> is \<^verbatim>\<open>undefined\<close> when no user has the caller's id; the callback of
  \<^verbatim>\<open>filter\<close> reads \<^verbatim>\<open>user.id\<close>, once for each notification in the store.
\<close>

definition get_notifications :: "caller \<Rightarrow> state \<Rightarrow> (error + notification list) \<times> state" where
  "get_notifications u s =
     (case authorizeRoles [''citizen'', ''officer'', ''admin''] u of
        Some err \<Rightarrow> (Inl err, s)
      | None \<Rightarrow>
          let user = find (\<lambda>usr. u_id usr = c_id u) (users s)
          in (filter_throwing
                (\<lambda>n. case user of
                        None \<Rightarrow> Inl TypeError
                      | Some usr \<Rightarrow> Inr (toUserId n = u_id usr))
                (notifications s),
              s))"

subsection \<open>POST /api/sample/reset\<close>

text \<open>
  \<^verbatim>\<open>while (users.length > 3) users.pop()\<close> keeps the first three users, the loop on
  \<^verbatim>\<open>plots\<close> the first plot; \<^verbatim>\<open>splice(0, length)\<close> empties the other arrays.
\<close>

definition post_sample_reset :: "caller \<Rightarrow> state \<Rightarrow> (error + unit) \<times> state" where
  "post_sample_reset u s =
     (case authorizeRoles [''admin''] u of
        Some err \<Rightarrow> (Inl err, s)
      | None \<Rightarrow>
          (Inr (),
           s\<lparr>users := take 3 (users s),
             plots := take 1 (plots s),
             applications := [],
             notifications := [],
             payments := [],
             documents := []\<rparr>))"

subsection \<open>Sequences of workflow operations\<close>

datatype operation =
    Submit caller application_request env
  | Pay caller jsval jsval env
  | UpdateStatus caller string jsval jsval env
  | ListApplications caller

fun step :: "operation \<Rightarrow> state \<Rightarrow> state" where
  "step (Submit u req e) s = snd (post_applications u req e s)"
| "step (Pay u applicationId amt e) s = snd (post_payments_initiate u applicationId amt e s)"
| "step (UpdateStatus u appId status remarks e) s =
     snd (post_applications_status u appId status remarks e s)"
| "step (ListApplications u) s = snd (get_applications u s)"

fun run :: "operation list \<Rightarrow> state \<Rightarrow> state" where
  "run [] s = s"
| "run (x # xs) s = run xs (step x s)"

subsection \<open>The demo data the server starts with\<close>

text \<open>
  The three demo users and the demo plot. The users' ids are drawn by \<^verbatim>\<open>uuidv4()\<close> at
  start-up; fixed strings stand for them here.
\<close>

definition demo_state :: state where
  "demo_state =
     \<lparr>users =
        [\<lparr>u_id = ''uid-citizen'', u_name = ''Demo Citizen'', u_email = ''citizen@example.com'',
          u_password = ''citizenpass'', u_role = ''citizen'', u_language = ''en''\<rparr>,
         \<lparr>u_id = ''uid-officer'', u_name = ''Land Officer'', u_email = ''officer@gov.in'',
          u_password = ''officerpass'', u_role = ''officer'', u_language = ''en''\<rparr>,
         \<lparr>u_id = ''uid-admin'', u_name = ''System Admin'', u_email = ''admin@gov.in'',
          u_password = ''adminpass'', u_role = ''admin'', u_language = ''en''\<rparr>],
      plots =
        [\<lparr>plotId = ''PLOT123'', area = 1000, plot_type = ''agricultural'',
          currentOwnerEmail = ''citizen@example.com'', plot_status = ''active''\<rparr>],
      applications = [],
      notifications = [],
      payments = [],
      documents = []\<rparr>"

definition demo_citizen :: caller where
  "demo_citizen = \<lparr>c_id = ''uid-citizen'', c_role = ''citizen'', c_email = ''citizen@example.com''\<rparr>"

definition demo_officer :: caller where
  "demo_officer = \<lparr>c_id = ''uid-officer'', c_role = ''officer'', c_email = ''officer@gov.in''\<rparr>"

definition demo_admin :: caller where
  "demo_admin = \<lparr>c_id = ''uid-admin'', c_role = ''admin'', c_email = ''admin@gov.in''\<rparr>"

text \<open>A citizen who registered after start-up, and whose user record a reset removes.\<close>

definition other_citizen :: caller where
  "other_citizen = \<lparr>c_id = ''uid-4'', c_role = ''citizen'', c_email = ''b@example.com''\<rparr>"

definition env1 :: env where
  "env1 = \<lparr>uuid1 = ''id-1'', uuid2 = ''id-2'', date1 = 1, date2 = 1\<rparr>"

definition env2 :: env where
  "env2 = \<lparr>uuid1 = ''id-3'', uuid2 = ''id-4'', date1 = 2, date2 = 2\<rparr>"

definition env3 :: env where
  "env3 = \<lparr>uuid1 = ''id-5'', uuid2 = ''id-6'', date1 = 3, date2 = 3\<rparr>"

definition valid_request :: application_request where
  "valid_request =
     \<lparr>req_applicationType = JStr ''mutation'', req_plotId = JStr ''PLOT123'',
      req_documents = JArr [JStr ''doc-1''], req_reason = JUndefined\<rparr>"

text \<open>A submission whose \<^verbatim>\<open>documents\<close> is present but has no element.\<close>

definition empty_documents_request :: application_request where
  "empty_documents_request =
     \<lparr>req_applicationType = JStr ''mutation'', req_plotId = JStr ''PLOT123'',
      req_documents = JArr [], req_reason = JUndefined\<rparr>"

text \<open>A submission whose \<^verbatim>\<open>applicationType\<close> is none of the three recognised ones.\<close>

definition unknown_type_request :: application_request where
  "unknown_type_request =
     \<lparr>req_applicationType = JStr ''transfer'', req_plotId = JStr ''PLOT123'',
      req_documents = JArr [JStr ''doc-1''], req_reason = JUndefined\<rparr>"

text \<open>The demo data after the demo citizen's valid submission.\<close>

definition submitted_state :: state where
  "submitted_state = snd (post_applications demo_citizen valid_request env1 demo_state)"

text \<open>The citizen pays for, and the officer approves, the application submitted above.\<close>

definition approve_ops :: "operation list" where
  "approve_ops =
     [Pay demo_citizen (JStr ''id-1'') (JNum 500) env2,
      UpdateStatus demo_officer ''id-1'' (JStr ''approved'') (JStr ''verified'') env3]"

text \<open>
  A second citizen has registered (a fourth user, with the notification of the
  registration); then the admin resets the sample data.
\<close>

definition registered_state :: state where
  "registered_state =
     submitted_state
       \<lparr>users := users submitted_state @
          [\<lparr>u_id = ''uid-4'', u_name = ''Citizen B'', u_email = ''b@example.com'',
            u_password = ''bpass'', u_role = ''citizen'', u_language = ''en''\<rparr>],
        notifications := notifications submitted_state @
          [\<lparr>n_id = ''id-0'', toUserId = ''uid-4'',
            message = Lit ''Registration successful. Welcome!'', ts = 1\<rparr>]\<rparr>"

definition reset_state :: state where
  "reset_state = snd (post_sample_reset demo_admin registered_state)"

subsection \<open>Histories over time\<close>

text \<open>
  The second application list has, position by position, the applications of the first
  (same id) with a history that the first one's is a prefix of, and maybe more
  applications after them.
\<close>

fun history_extends :: "application list \<Rightarrow> application list \<Rightarrow> bool" where
  "history_extends [] ys = True"
| "history_extends (x # xs) [] = False"
| "history_extends (x # xs) (y # ys) =
     (app_id y = app_id x \<and> prefix (history x) (history y) \<and> history_extends xs ys)"

section \<open>Properties\<close>

subsection \<open>Array helpers\<close>

lemma update_first_length [simp]: "length (update_first p f xs) = length xs"
  by (induction xs) auto

lemma find_update_first:
  "find p xs = Some a \<Longrightarrow> p (f a) \<Longrightarrow> find p (update_first p f xs) = Some (f a)"
  by (induction xs) (auto split: if_splits)

lemma update_first_nth:
  "find p xs = Some a \<Longrightarrow>
   \<exists>i < length xs. xs ! i = a \<and> (\<forall>j < i. \<not> p (xs ! j)) \<and> update_first p f xs = xs[i := f a]"
proof (induction xs)
  case Nil
  then show ?case by simp
next
  case (Cons x xs)
  show ?case
  proof (cases "p x")
    case True
    with Cons.prems have "x = a" by simp
    with True show ?thesis by (intro exI[of _ 0]) simp
  next
    case False
    with Cons.prems have "find p xs = Some a" by simp
    from Cons.IH[OF this] obtain i where i: "i < length xs" "xs ! i = a"
      "\<forall>j < i. \<not> p (xs ! j)" "update_first p f xs = xs[i := f a]" by blast
    have "\<forall>j < Suc i. \<not> p ((x # xs) ! j)"
      using False i(3) by (auto simp: less_Suc_eq_0_disj)
    with i False show ?thesis by (intro exI[of _ "Suc i"]) simp
  qed
qed

lemma map_update_first:
  "(\<And>x. g (f x) = g x) \<Longrightarrow> map g (update_first p f xs) = map g xs"
  by (induction xs) auto

lemma authorizeRoles_citizen [simp]:
  "c_role u = ''citizen'' \<Longrightarrow> authorizeRoles [''citizen''] u = None"
  by (simp add: authorizeRoles_def)

lemma find_Some_if_exists:
  assumes "\<exists>x \<in> set xs. P x"
  obtains x where "find P xs = Some x"
  using assms by (cases "find P xs") (auto simp: find_None_iff)

subsection \<open>Submission\<close>

text \<open>
  Claim C2. A submission by a citizen that passes the three checks (the three fields are
  truthy, the type is one of the three recognised ones, a plot with the given id is owned
  by the caller) succeeds. The application it returns has status "submitted", payment
  status "pending", no officer assigned and an empty history; it is appended to the
  application store, and exactly one notification, addressed to the caller's user id, is
  appended to the notification store. Users, plots and payments are untouched.
\<close>

theorem submission_creates_application:
  assumes "c_role u = ''citizen''"
    and "truthy (req_applicationType req)"
    and "truthy (req_plotId req)"
    and "truthy (req_documents req)"
    and "req_applicationType req \<in> {JStr ''mutation'', JStr ''correction'', JStr ''conversion''}"
    and "\<exists>p \<in> set (plots s). JStr (plotId p) = req_plotId req \<and> currentOwnerEmail p = c_email u"
  shows "\<exists>app n.
           fst (post_applications u req e s) = Inr app
         \<and> applicationStatus app = JStr ''submitted''
         \<and> paymentStatus app = ''pending''
         \<and> officerAssigned app = None
         \<and> history app = []
         \<and> applicantEmail app = c_email u
         \<and> applications (snd (post_applications u req e s)) = applications s @ [app]
         \<and> notifications (snd (post_applications u req e s)) = notifications s @ [n]
         \<and> toUserId n = c_id u
         \<and> payments (snd (post_applications u req e s)) = payments s
         \<and> users (snd (post_applications u req e s)) = users s
         \<and> plots (snd (post_applications u req e s)) = plots s"
proof -
  obtain p where p: "find (\<lambda>p. JStr (plotId p) = req_plotId req
                     \<and> currentOwnerEmail p = c_email u) (plots s) = Some p"
    using assms(6) by (rule find_Some_if_exists)
  show ?thesis
    using assms(1-5) p
    by (simp add: post_applications_def sendNotification_def Let_def)
qed

text \<open>The demo citizen submits a mutation of PLOT123 with one document.\<close>

theorem submission_creates_application_witness:
  "\<exists>app n.
       fst (post_applications demo_citizen valid_request env1 demo_state) = Inr app
     \<and> applicationStatus app = JStr ''submitted''
     \<and> paymentStatus app = ''pending''
     \<and> officerAssigned app = None
     \<and> history app = []
     \<and> applicantEmail app = c_email demo_citizen
     \<and> applications (snd (post_applications demo_citizen valid_request env1 demo_state))
           = applications demo_state @ [app]
     \<and> notifications (snd (post_applications demo_citizen valid_request env1 demo_state))
           = notifications demo_state @ [n]
     \<and> toUserId n = c_id demo_citizen
     \<and> payments (snd (post_applications demo_citizen valid_request env1 demo_state))
           = payments demo_state
     \<and> users (snd (post_applications demo_citizen valid_request env1 demo_state))
           = users demo_state
     \<and> plots (snd (post_applications demo_citizen valid_request env1 demo_state))
           = plots demo_state"
  by (rule submission_creates_application)
     (simp_all add: demo_citizen_def valid_request_def demo_state_def)

text \<open>
  Claim C3, as stated, fails: the handler tests \<^verbatim>\<open>!docLinks\<close>, and an empty array is
  truthy. The demo citizen's submission with \<^verbatim>\<open>documents: []\<close> is not answered
  "Missing fields", and an application is added to the store.
\<close>

theorem empty_documents_accepted:
  "req_documents empty_documents_request = JArr []
   \<and> fst (post_applications demo_citizen empty_documents_request env1 demo_state) \<noteq> Inl MissingFields
   \<and> length (applications (snd (post_applications demo_citizen empty_documents_request env1 demo_state)))
       = Suc (length (applications demo_state))"
  by (simp add: post_applications_def empty_documents_request_def demo_citizen_def demo_state_def
        authorizeRoles_def sendNotification_def Let_def)

text \<open>
  Claim C3, amended. A submission by a citizen whose \<^verbatim>\<open>documents\<close> field is absent or
  falsy (undefined, null, false, 0 or the empty string) is answered 400 "Missing fields",
  and the state is left as it was: no application is created.
\<close>

theorem submission_missing_documents:
  assumes "c_role u = ''citizen''"
    and "\<not> truthy (req_documents req)"
  shows "post_applications u req e s = (Inl MissingFields, s)"
  using assms by (simp add: post_applications_def)

theorem submission_missing_documents_witness:
  "post_applications demo_citizen (valid_request\<lparr>req_documents := JNull\<rparr>) env1 demo_state
     = (Inl MissingFields, demo_state)"
  using submission_missing_documents
          [of demo_citizen "valid_request\<lparr>req_documents := JNull\<rparr>" env1 demo_state]
  by (simp add: demo_citizen_def)

text \<open>
  Claim C4, as stated, fails: the checks run in order, and a submission naming a plot the
  caller does not own is rejected by an earlier check when its fields are missing or its
  type is not recognised. A citizen who owns no plot submits type "transfer" against
  PLOT123: the answer is 400 "Invalid application type", a validation error.
\<close>

theorem plot_not_owned_validation_first:
  "c_email other_citizen \<notin> set (map currentOwnerEmail (plots demo_state))
   \<and> fst (post_applications other_citizen unknown_type_request env1 demo_state)
       = Inl InvalidApplicationType
   \<and> classify InvalidApplicationType \<noteq> AuthorizationError"
  by (simp add: post_applications_def unknown_type_request_def other_citizen_def demo_state_def
        authorizeRoles_def)

text \<open>
  Claim C4, amended. A submission by a citizen naming a plot id such that no plot with
  that id is owned by the caller always fails and leaves the state as it was (no
  application is created). The error is that of the first failing check: 400 "Missing
  fields", a validation error, when one of the three fields is absent or falsy; else 400
  "Invalid application type", a validation error, when the type is not one of the three
  recognised ones; else, the first two checks passed, 400 "Plot does not belong to you",
  an authorization error.
\<close>

theorem submission_plot_not_owned:
  assumes "c_role u = ''citizen''"
    and "\<forall>p \<in> set (plots s). \<not> (JStr (plotId p) = req_plotId req \<and> currentOwnerEmail p = c_email u)"
  shows "\<exists>err. post_applications u req e s = (Inl err, s)
           \<and> (\<not> truthy (req_applicationType req) \<or> \<not> truthy (req_plotId req)
                \<or> \<not> truthy (req_documents req)
              \<longrightarrow> err = MissingFields \<and> classify err = ValidationError)
           \<and> (truthy (req_applicationType req) \<and> truthy (req_plotId req)
                \<and> truthy (req_documents req)
                \<and> req_applicationType req
                    \<notin> {JStr ''mutation'', JStr ''correction'', JStr ''conversion''}
              \<longrightarrow> err = InvalidApplicationType \<and> classify err = ValidationError)
           \<and> (truthy (req_applicationType req) \<and> truthy (req_plotId req)
                \<and> truthy (req_documents req)
                \<and> req_applicationType req
                    \<in> {JStr ''mutation'', JStr ''correction'', JStr ''conversion''}
              \<longrightarrow> err = PlotNotYours \<and> classify err = AuthorizationError)"
proof -
  have none: "find (\<lambda>p. JStr (plotId p) = req_plotId req
                     \<and> currentOwnerEmail p = c_email u) (plots s) = None"
    using assms(2) by (simp add: find_None_iff)
  consider (missing) "\<not> truthy (req_applicationType req) \<or> \<not> truthy (req_plotId req)
                \<or> \<not> truthy (req_documents req)"
    | (unknown) "truthy (req_applicationType req)" "truthy (req_plotId req)"
        "truthy (req_documents req)"
        "req_applicationType req
           \<notin> {JStr ''mutation'', JStr ''correction'', JStr ''conversion''}"
    | (plot) "truthy (req_applicationType req)" "truthy (req_plotId req)"
        "truthy (req_documents req)"
        "req_applicationType req
           \<in> {JStr ''mutation'', JStr ''correction'', JStr ''conversion''}"
    by blast
  then show ?thesis
  proof cases
    case missing
    then have "post_applications u req e s = (Inl MissingFields, s)"
      using assms(1) by (auto simp: post_applications_def)
    with missing show ?thesis by auto
  next
    case unknown
    then have "post_applications u req e s = (Inl InvalidApplicationType, s)"
      using assms(1) by (simp add: post_applications_def)
    with unknown show ?thesis by simp
  next
    case plot
    then have "post_applications u req e s = (Inl PlotNotYours, s)"
      using assms(1) none by (auto simp: post_applications_def)
    with plot show ?thesis by auto
  qed
qed

text \<open>
  A citizen who owns no plot submits against PLOT123: an otherwise valid request, one
  with an unrecognised type, and one without documents.
\<close>

theorem submission_plot_not_owned_witness:
  "post_applications other_citizen valid_request env1 demo_state
     = (Inl PlotNotYours, demo_state)
 \<and> post_applications other_citizen unknown_type_request env1 demo_state
     = (Inl InvalidApplicationType, demo_state)
 \<and> post_applications other_citizen (valid_request\<lparr>req_documents := JNull\<rparr>) env1 demo_state
     = (Inl MissingFields, demo_state)"
  using submission_plot_not_owned [of other_citizen demo_state valid_request env1]
    submission_plot_not_owned [of other_citizen demo_state unknown_type_request env1]
    submission_plot_not_owned
      [of other_citizen demo_state "valid_request\<lparr>req_documents := JNull\<rparr>" env1]
  by (simp add: other_citizen_def valid_request_def unknown_type_request_def demo_state_def)

subsection \<open>Payment\<close>

text \<open>What a payment call that passes every check returns and leaves behind.\<close>

lemma payment_effect:
  assumes "c_role u = ''citizen''"
    and "truthy applicationId"
    and "typeof amt = ''number''"
    and "find (\<lambda>a. JStr (app_id a) = applicationId \<and> applicantEmail a = c_email u)
           (applications s) = Some app"
    and "paymentStatus app \<noteq> ''completed''"
  shows "post_payments_initiate u applicationId amt e s =
           (Inr \<lparr>resp_paymentId = uuid1 e, resp_status = ''completed''\<rparr>,
            s\<lparr>payments := payments s @
                 [\<lparr>pay_id = uuid1 e, pay_applicationId = applicationId, amount = amt,
                   pay_status = ''initiated'', paidBy = c_email u, pay_date = date1 e\<rparr>],
              applications :=
                 update_first (\<lambda>a. JStr (app_id a) = applicationId \<and> applicantEmail a = c_email u)
                   (\<lambda>a. a\<lparr>paymentStatus := ''completed''\<rparr>) (applications s),
              notifications := notifications s @
                 [\<lparr>n_id = uuid2 e, toUserId = c_id u,
                   message = Template ''Payment successful for application: '' applicationId,
                   ts = date2 e\<rparr>]\<rparr>)"
  using assms by (simp add: post_payments_initiate_def sendNotification_def Let_def)

lemma submitted_state_eq:
  "submitted_state =
     demo_state\<lparr>applications :=
        [\<lparr>app_id = ''id-1'', applicationType = JStr ''mutation'', applicant = JUndefined,
          applicantEmail = ''citizen@example.com'', app_plotId = JStr ''PLOT123'',
          applicationStatus = JStr ''submitted'', app_date = 1,
          app_documents = JArr [JStr ''doc-1''], reason = JNull, officerAssigned = None,
          paymentStatus = ''pending'', history = []\<rparr>],
       notifications :=
        [\<lparr>n_id = ''id-2'', toUserId = ''uid-citizen'',
          message = Lit ''Application submitted successfully. Please complete payment.'',
          ts = 1\<rparr>]\<rparr>"
  by (simp add: submitted_state_def post_applications_def demo_citizen_def valid_request_def
        demo_state_def env1_def authorizeRoles_def sendNotification_def Let_def)

text \<open>
  Claim C1. A payment call by a citizen on an application they own whose payment status
  is "pending", with a numeric amount, creates exactly one payment record, sets the
  application's payment status to "completed" and emits exactly one notification to the
  caller. The claim's remaining part, that the record's status is "completed", does not
  hold of the code: the handler answers \<^verbatim>\<open>status: "completed"\<close> for the payment id, but
  the record it stores under that id has status "initiated".
\<close>

theorem payment_record_initiated:
  assumes "c_role u = ''citizen''"
    and "truthy applicationId"
    and "typeof amt = ''number''"
    and "find (\<lambda>a. JStr (app_id a) = applicationId \<and> applicantEmail a = c_email u)
           (applications s) = Some app"
    and "paymentStatus app = ''pending''"
  shows "\<exists>p n.
           fst (post_payments_initiate u applicationId amt e s)
             = Inr \<lparr>resp_paymentId = pay_id p, resp_status = ''completed''\<rparr>
         \<and> payments (snd (post_payments_initiate u applicationId amt e s)) = payments s @ [p]
         \<and> pay_id p = uuid1 e
         \<and> pay_status p = ''initiated''
         \<and> pay_status p \<noteq> ''completed''
         \<and> find (\<lambda>a. JStr (app_id a) = applicationId \<and> applicantEmail a = c_email u)
              (applications (snd (post_payments_initiate u applicationId amt e s)))
             = Some (app\<lparr>paymentStatus := ''completed''\<rparr>)
         \<and> notifications (snd (post_payments_initiate u applicationId amt e s))
             = notifications s @ [n]
         \<and> toUserId n = c_id u"
proof -
  have ne: "paymentStatus app \<noteq> ''completed''" using assms(5) by simp
  have P: "JStr (app_id app) = applicationId \<and> applicantEmail app = c_email u"
    using assms(4) by (auto dest: find_Some_iff[THEN iffD1])
  show ?thesis
    unfolding payment_effect [OF assms(1-4) ne]
    using find_update_first [OF assms(4), of "\<lambda>a. a\<lparr>paymentStatus := ''completed''\<rparr>"] P
    by simp
qed

text \<open>The demo citizen pays 500 for the application submitted above.\<close>

theorem payment_record_initiated_witness:
  "\<exists>p. fst (post_payments_initiate demo_citizen (JStr ''id-1'') (JNum 500) env2 submitted_state)
         = Inr \<lparr>resp_paymentId = ''id-3'', resp_status = ''completed''\<rparr>
       \<and> payments (snd (post_payments_initiate demo_citizen (JStr ''id-1'') (JNum 500) env2
                          submitted_state)) = [p]
       \<and> pay_id p = ''id-3''
       \<and> pay_status p = ''initiated''"
proof -
  have "c_role demo_citizen = ''citizen''"
    by (simp add: demo_citizen_def)
  moreover have "truthy (JStr ''id-1'')" and "typeof (JNum 500) = ''number''"
    by simp_all
  moreover have "find (\<lambda>a. JStr (app_id a) = JStr ''id-1'' \<and> applicantEmail a = c_email demo_citizen)
           (applications submitted_state) = Some (hd (applications submitted_state))"
    and "paymentStatus (hd (applications submitted_state)) = ''pending''"
    by (simp_all add: submitted_state_eq demo_citizen_def)
  ultimately obtain p n where
    "fst (post_payments_initiate demo_citizen (JStr ''id-1'') (JNum 500) env2 submitted_state)
       = Inr \<lparr>resp_paymentId = pay_id p, resp_status = ''completed''\<rparr>"
    "payments (snd (post_payments_initiate demo_citizen (JStr ''id-1'') (JNum 500) env2
                      submitted_state)) = payments submitted_state @ [p]"
    "pay_id p = uuid1 env2" "pay_status p = ''initiated''"
    using payment_record_initiated [of demo_citizen "JStr ''id-1''" "JNum 500" submitted_state
            "hd (applications submitted_state)" env2]
    by blast
  moreover have "payments submitted_state = []" and "uuid1 env2 = ''id-3''"
    by (simp_all add: submitted_state_eq demo_state_def env2_def)
  ultimately show ?thesis by simp
qed


text \<open>
  Claim C5. Two payment calls in succession by the applicant on the same pending
  application: the first succeeds, sets the payment status to "completed" and adds one
  payment record; the second is answered 409 "Already paid", a conflict error, and
  leaves the whole state (payments and applications included) as the first call left it.
\<close>

theorem second_payment_conflict:
  assumes "c_role u = ''citizen''"
    and "truthy applicationId"
    and "typeof amt = ''number''"
    and "typeof amt' = ''number''"
    and "find (\<lambda>a. JStr (app_id a) = applicationId \<and> applicantEmail a = c_email u)
           (applications s) = Some app"
    and "paymentStatus app = ''pending''"
  shows "fst (post_payments_initiate u applicationId amt e s)
           = Inr \<lparr>resp_paymentId = uuid1 e, resp_status = ''completed''\<rparr>
       \<and> find (\<lambda>a. JStr (app_id a) = applicationId \<and> applicantEmail a = c_email u)
           (applications (snd (post_payments_initiate u applicationId amt e s)))
           = Some (app\<lparr>paymentStatus := ''completed''\<rparr>)
       \<and> length (payments (snd (post_payments_initiate u applicationId amt e s)))
           = Suc (length (payments s))
       \<and> post_payments_initiate u applicationId amt' e'
             (snd (post_payments_initiate u applicationId amt e s))
           = (Inl AlreadyPaid, snd (post_payments_initiate u applicationId amt e s))
       \<and> classify AlreadyPaid = ConflictError"
proof -
  let ?P = "\<lambda>a. JStr (app_id a) = applicationId \<and> applicantEmail a = c_email u"
  let ?s1 = "snd (post_payments_initiate u applicationId amt e s)"
  have ne: "paymentStatus app \<noteq> ''completed''" using assms(6) by simp
  have P: "?P app"
    using assms(5) by (auto dest: find_Some_iff[THEN iffD1])
  note first = payment_effect [OF assms(1-3) assms(5) ne, of e]
  have found: "find ?P (applications ?s1) = Some (app\<lparr>paymentStatus := ''completed''\<rparr>)"
    unfolding first
    using find_update_first [OF assms(5), of "\<lambda>a. a\<lparr>paymentStatus := ''completed''\<rparr>"] P
    by simp
  have second: "post_payments_initiate u applicationId amt' e' ?s1 = (Inl AlreadyPaid, ?s1)"
    using assms(1,2,4) found by (simp add: post_payments_initiate_def)
  have "fst (post_payments_initiate u applicationId amt e s)
           = Inr \<lparr>resp_paymentId = uuid1 e, resp_status = ''completed''\<rparr>"
    and "length (payments ?s1) = Suc (length (payments s))"
    unfolding first by simp_all
  with found second show ?thesis by simp
qed

theorem second_payment_conflict_witness:
  "fst (post_payments_initiate demo_citizen (JStr ''id-1'') (JNum 500) env2 submitted_state)
     = Inr \<lparr>resp_paymentId = ''id-3'', resp_status = ''completed''\<rparr>
   \<and> length (payments (snd (post_payments_initiate demo_citizen (JStr ''id-1'') (JNum 500) env2
                              submitted_state))) = 1
   \<and> post_payments_initiate demo_citizen (JStr ''id-1'') (JNum 500) env3
         (snd (post_payments_initiate demo_citizen (JStr ''id-1'') (JNum 500) env2 submitted_state))
       = (Inl AlreadyPaid,
          snd (post_payments_initiate demo_citizen (JStr ''id-1'') (JNum 500) env2 submitted_state))"
proof -
  have role: "c_role demo_citizen = ''citizen''"
    by (simp add: demo_citizen_def)
  have args: "truthy (JStr ''id-1'')" "typeof (JNum 500) = ''number''"
    by simp_all
  have app: "find (\<lambda>a. JStr (app_id a) = JStr ''id-1'' \<and> applicantEmail a = c_email demo_citizen)
           (applications submitted_state) = Some (hd (applications submitted_state))"
    and pending: "paymentStatus (hd (applications submitted_state)) = ''pending''"
    by (simp_all add: submitted_state_eq demo_citizen_def)
  have
    "fst (post_payments_initiate demo_citizen (JStr ''id-1'') (JNum 500) env2 submitted_state)
           = Inr \<lparr>resp_paymentId = uuid1 env2, resp_status = ''completed''\<rparr>
       \<and> find (\<lambda>a. JStr (app_id a) = JStr ''id-1'' \<and> applicantEmail a = c_email demo_citizen)
           (applications (snd (post_payments_initiate demo_citizen (JStr ''id-1'') (JNum 500) env2 submitted_state)))
           = Some (hd (applications submitted_state)\<lparr>paymentStatus := ''completed''\<rparr>)
       \<and> length (payments (snd (post_payments_initiate demo_citizen (JStr ''id-1'') (JNum 500) env2 submitted_state)))
           = Suc (length (payments submitted_state))
       \<and> post_payments_initiate demo_citizen (JStr ''id-1'') (JNum 500) env3
             (snd (post_payments_initiate demo_citizen (JStr ''id-1'') (JNum 500) env2 submitted_state))
           = (Inl AlreadyPaid, snd (post_payments_initiate demo_citizen (JStr ''id-1'') (JNum 500) env2 submitted_state))
       \<and> classify AlreadyPaid = ConflictError"
    by (rule second_payment_conflict [OF role args(1) args(2) args(2) app pending])
  moreover have "payments submitted_state = []" and "uuid1 env2 = ''id-3''"
    by (simp_all add: submitted_state_eq demo_state_def env2_def)
  ultimately show ?thesis by simp
qed

subsection \<open>Listing\<close>

lemma authorizeRoles_all [simp]:
  "c_role u = ''citizen'' \<or> c_role u = ''officer'' \<or> c_role u = ''admin'' \<Longrightarrow>
   authorizeRoles [''citizen'', ''officer'', ''admin''] u = None"
  by (auto simp: authorizeRoles_def)

text \<open>
  Claim C6. The application listing of a citizen is the applications whose applicant
  email equals the caller's email, in store order, so exactly that set; the listing of an
  officer or an admin is the whole store; the listing leaves the state as it was.
\<close>

theorem listing_by_role:
  "(c_role u = ''citizen'' \<longrightarrow>
      fst (get_applications u s)
        = Inr (filter (\<lambda>a. applicantEmail a = c_email u) (applications s))
    \<and> (\<exists>xs. fst (get_applications u s) = Inr xs
          \<and> set xs = {a \<in> set (applications s). applicantEmail a = c_email u}))
 \<and> (c_role u = ''officer'' \<or> c_role u = ''admin'' \<longrightarrow>
      fst (get_applications u s) = Inr (applications s))
 \<and> snd (get_applications u s) = s"
  by (auto simp: get_applications_def authorizeRoles_def)

text \<open>
  With one application of the demo citizen in the store: the demo citizen, the officer and
  the admin see it, another citizen sees nothing.
\<close>

theorem listing_by_role_witness:
  "fst (get_applications demo_citizen submitted_state) = Inr (applications submitted_state)
 \<and> fst (get_applications other_citizen submitted_state) = Inr []
 \<and> fst (get_applications demo_officer submitted_state) = Inr (applications submitted_state)
 \<and> fst (get_applications demo_admin submitted_state) = Inr (applications submitted_state)
 \<and> snd (get_applications demo_citizen submitted_state) = submitted_state"
  using listing_by_role [of demo_citizen submitted_state]
    listing_by_role [of other_citizen submitted_state]
    listing_by_role [of demo_officer submitted_state]
    listing_by_role [of demo_admin submitted_state]
  by (simp add: demo_citizen_def other_citizen_def demo_officer_def demo_admin_def
        submitted_state_eq)

subsection \<open>Frame conditions\<close>

text \<open>
  The application store after a status update or a payment: as it was, or with the
  handler's assignments made to the first matching application.
\<close>

lemma status_update_applications:
  "applications (snd (post_applications_status u appId status remarks e s)) = applications s
   \<or> applications (snd (post_applications_status u appId status remarks e s))
       = update_first (\<lambda>a. app_id a = appId)
           (\<lambda>a. a\<lparr>applicationStatus := status,
                   history := history a @
                     [\<lparr>h_by = c_role u, h_at = date1 e, h_status = status, h_remarks = remarks\<rparr>]\<rparr>)
           (applications s)"
  by (simp add: post_applications_status_def sendNotification_def Let_def
        split: option.splits)

lemma payment_applications:
  "applications (snd (post_payments_initiate u applicationId amt e s)) = applications s
   \<or> applications (snd (post_payments_initiate u applicationId amt e s))
       = update_first (\<lambda>a. JStr (app_id a) = applicationId \<and> applicantEmail a = c_email u)
           (\<lambda>a. a\<lparr>paymentStatus := ''completed''\<rparr>) (applications s)"
  by (simp add: post_payments_initiate_def sendNotification_def Let_def
        split: option.splits)

text \<open>
  Claim C8. A status update and a payment call, whatever their arguments and outcome,
  leave the id, the type, the applicant email, the plot id and the documents of every
  application in the store as they were, and neither add nor remove an application.
\<close>

theorem immutable_fields_kept:
  "map app_id (applications (snd (post_applications_status u appId status remarks e s)))
     = map app_id (applications s)
 \<and> map applicationType (applications (snd (post_applications_status u appId status remarks e s)))
     = map applicationType (applications s)
 \<and> map applicantEmail (applications (snd (post_applications_status u appId status remarks e s)))
     = map applicantEmail (applications s)
 \<and> map app_plotId (applications (snd (post_applications_status u appId status remarks e s)))
     = map app_plotId (applications s)
 \<and> map app_documents (applications (snd (post_applications_status u appId status remarks e s)))
     = map app_documents (applications s)
 \<and> map app_id (applications (snd (post_payments_initiate u' applicationId amt e' s)))
     = map app_id (applications s)
 \<and> map applicationType (applications (snd (post_payments_initiate u' applicationId amt e' s)))
     = map applicationType (applications s)
 \<and> map applicantEmail (applications (snd (post_payments_initiate u' applicationId amt e' s)))
     = map applicantEmail (applications s)
 \<and> map app_plotId (applications (snd (post_payments_initiate u' applicationId amt e' s)))
     = map app_plotId (applications s)
 \<and> map app_documents (applications (snd (post_payments_initiate u' applicationId amt e' s)))
     = map app_documents (applications s)"
  using status_update_applications [of u appId status remarks e s]
    payment_applications [of u' applicationId amt e' s]
  by (auto simp: map_update_first)

text \<open>The officer approves, and the citizen pays for, the application submitted above.\<close>

theorem immutable_fields_kept_witness:
  "map applicationType
     (applications (snd (post_applications_status demo_officer ''id-1'' (JStr ''approved'')
                           (JStr ''verified'') env3 submitted_state)))
     = [JStr ''mutation'']
 \<and> map applicantEmail
     (applications (snd (post_applications_status demo_officer ''id-1'' (JStr ''approved'')
                           (JStr ''verified'') env3 submitted_state)))
     = [''citizen@example.com'']
 \<and> map app_plotId
     (applications (snd (post_payments_initiate demo_citizen (JStr ''id-1'') (JNum 500) env2
                           submitted_state)))
     = [JStr ''PLOT123'']
 \<and> map app_documents
     (applications (snd (post_payments_initiate demo_citizen (JStr ''id-1'') (JNum 500) env2
                           submitted_state)))
     = [JArr [JStr ''doc-1'']]"
proof -
  have "map applicationType (applications submitted_state) = [JStr ''mutation'']"
    and "map applicantEmail (applications submitted_state) = [''citizen@example.com'']"
    and "map app_plotId (applications submitted_state) = [JStr ''PLOT123'']"
    and "map app_documents (applications submitted_state) = [JArr [JStr ''doc-1'']]"
    by (simp_all add: submitted_state_eq)
  with immutable_fields_kept [of demo_officer "''id-1''" "JStr ''approved''" "JStr ''verified''"
         env3 submitted_state demo_citizen "JStr ''id-1''" "JNum 500" env2]
  show ?thesis by simp
qed

subsection \<open>Errors\<close>

text \<open>
  Claim C9. When a submission, a payment call or a status update answers with an error of
  one of the four kinds (validation, authorization, not found, conflict), the state is
  exactly as it was before the call: no application, payment or notification was created
  and no entity was changed.
\<close>

theorem errors_leave_state:
  assumes "classify err \<in> {ValidationError, AuthorizationError, NotFoundError, ConflictError}"
  shows "(fst (post_applications u req e s) = Inl err
            \<longrightarrow> snd (post_applications u req e s) = s)
       \<and> (fst (post_payments_initiate u applicationId amt e s) = Inl err
            \<longrightarrow> snd (post_payments_initiate u applicationId amt e s) = s)
       \<and> (fst (post_applications_status u appId status remarks e s) = Inl err
            \<longrightarrow> snd (post_applications_status u appId status remarks e s) = s)"
proof (intro conjI impI)
  assume "fst (post_applications u req e s) = Inl err"
  then show "snd (post_applications u req e s) = s"
    by (auto simp: post_applications_def Let_def split: option.splits if_splits)
next
  assume "fst (post_payments_initiate u applicationId amt e s) = Inl err"
  then show "snd (post_payments_initiate u applicationId amt e s) = s"
    by (auto simp: post_payments_initiate_def Let_def split: option.splits if_splits)
next
  assume "fst (post_applications_status u appId status remarks e s) = Inl err"
  then show "snd (post_applications_status u appId status remarks e s) = s"
    using assms
    by (auto simp: post_applications_status_def Let_def split: option.splits if_splits)
qed


text \<open>
  A submission against a plot of someone else, a payment for an unknown application and a
  status update of an unknown application.
\<close>

theorem errors_leave_state_witness:
  "snd (post_applications other_citizen valid_request env1 demo_state) = demo_state
 \<and> snd (post_payments_initiate demo_citizen (JStr ''id-9'') (JNum 500) env2 submitted_state)
     = submitted_state
 \<and> snd (post_applications_status demo_officer ''id-9'' (JStr ''approved'') JUndefined env3
          submitted_state)
     = submitted_state"
proof -
  have 1: "fst (post_applications other_citizen valid_request env1 demo_state) = Inl PlotNotYours"
    by (simp add: post_applications_def authorizeRoles_def other_citizen_def valid_request_def
          demo_state_def)
  have 2: "fst (post_payments_initiate demo_citizen (JStr ''id-9'') (JNum 500) env2 submitted_state)
             = Inl ApplicationNotFound"
    by (simp add: post_payments_initiate_def authorizeRoles_def demo_citizen_def
          submitted_state_eq)
  have 3: "fst (post_applications_status demo_officer ''id-9'' (JStr ''approved'') JUndefined env3
                  submitted_state) = Inl NotFound"
    by (simp add: post_applications_status_def authorizeRoles_def demo_officer_def
          submitted_state_eq)
  have c: "classify PlotNotYours \<in> {ValidationError, AuthorizationError, NotFoundError, ConflictError}"
    "classify ApplicationNotFound \<in> {ValidationError, AuthorizationError, NotFoundError, ConflictError}"
    "classify NotFound \<in> {ValidationError, AuthorizationError, NotFoundError, ConflictError}"
    by simp_all
  from errors_leave_state [OF c(1)] 1
  have "snd (post_applications other_citizen valid_request env1 demo_state) = demo_state"
    by blast
  moreover from errors_leave_state [OF c(2)] 2
  have "snd (post_payments_initiate demo_citizen (JStr ''id-9'') (JNum 500) env2 submitted_state)
          = submitted_state"
    by blast
  moreover from errors_leave_state [OF c(3)] 3
  have "snd (post_applications_status demo_officer ''id-9'' (JStr ''approved'') JUndefined env3
               submitted_state) = submitted_state"
    by blast
  ultimately show ?thesis by simp
qed

subsection \<open>History\<close>

lemma history_extends_append: "history_extends xs (xs @ zs)"
  by (induction xs) auto

lemma history_extends_refl: "history_extends xs xs"
  using history_extends_append [of xs "[]"] by simp

lemma history_extends_trans:
  "history_extends xs ys \<Longrightarrow> history_extends ys zs \<Longrightarrow> history_extends xs zs"
proof (induction xs ys arbitrary: zs rule: history_extends.induct)
  case (1 ys)
  then show ?case by simp
next
  case (2 x xs)
  then show ?case by simp
next
  case (3 x xs y ys)
  then obtain z zs' where zs: "zs = z # zs'"
    by (cases zs) auto
  with 3 show ?case
    by (auto intro: prefix_order.trans)
qed

lemma history_extends_update_first:
  assumes "\<And>a. app_id (f a) = app_id a" and "\<And>a. prefix (history a) (history (f a))"
  shows "history_extends xs (update_first p f xs)"
  using assms by (induction xs) (auto simp: history_extends_refl)

lemma history_extends_nth:
  "history_extends xs ys \<Longrightarrow> i < length xs \<Longrightarrow>
   i < length ys \<and> app_id (ys ! i) = app_id (xs ! i)
   \<and> prefix (history (xs ! i)) (history (ys ! i))"
proof (induction xs ys arbitrary: i rule: history_extends.induct)
  case (1 ys)
  then show ?case by simp
next
  case (2 x xs)
  then show ?case by simp
next
  case (3 x xs y ys)
  then show ?case by (cases i) auto
qed

text \<open>The application store after a submission: as it was, or with one application more.\<close>

lemma submission_applications:
  "applications (snd (post_applications u req e s)) = applications s
   \<or> (\<exists>app. applications (snd (post_applications u req e s)) = applications s @ [app])"
  by (simp add: post_applications_def sendNotification_def Let_def split: option.splits)

lemma step_history_extends: "history_extends (applications s) (applications (step x s))"
proof (cases x)
  case (Submit u req e)
  then show ?thesis
    using submission_applications [of u req e s]
    by (auto simp: history_extends_refl history_extends_append)
next
  case (Pay u applicationId amt e)
  then show ?thesis
    using payment_applications [of u applicationId amt e s]
    by (auto simp: history_extends_refl intro!: history_extends_update_first)
next
  case (UpdateStatus u appId status remarks e)
  then show ?thesis
    using status_update_applications [of u appId status remarks e s]
    by (auto simp: history_extends_refl intro!: history_extends_update_first)
next
  case (ListApplications u)
  then show ?thesis
    by (simp add: get_applications_def history_extends_refl split: option.splits)
qed

lemma run_history_extends: "history_extends (applications s) (applications (run ops s))"
proof (induction ops arbitrary: s)
  case Nil
  show ?case by (simp add: history_extends_refl)
next
  case (Cons x ops)
  show ?case
    using history_extends_trans [OF step_history_extends [of s x] Cons.IH [of "step x s"]]
    by simp
qed

text \<open>
  A status with no string conversion: the officer's update of the submitted application
  ends in a TypeError, with the status assigned and the record pushed, and without a
  notification.
\<close>

lemma status_update_unrenderable_status:
  "fst (post_applications_status demo_officer ''id-1'' (JObj [(''toString'', JNum 0)])
          JUndefined env3 submitted_state) = Inl TypeError
 \<and> map applicationStatus
       (applications (snd (post_applications_status demo_officer ''id-1''
                             (JObj [(''toString'', JNum 0)]) JUndefined env3 submitted_state)))
     = [JObj [(''toString'', JNum 0)]]
 \<and> map (\<lambda>a. length (history a))
       (applications (snd (post_applications_status demo_officer ''id-1''
                             (JObj [(''toString'', JNum 0)]) JUndefined env3 submitted_state)))
     = [1]
 \<and> notifications (snd (post_applications_status demo_officer ''id-1''
                          (JObj [(''toString'', JNum 0)]) JUndefined env3 submitted_state))
     = notifications submitted_state"
  by (simp add: post_applications_status_def authorizeRoles_def demo_officer_def
        submitted_state_eq demo_state_def Let_def)

text \<open>What a status update that answers with the application has done.\<close>

lemma status_update_success:
  assumes "fst (post_applications_status u appId status remarks e s) = Inr app'"
  shows "\<exists>a. find (\<lambda>a. app_id a = appId) (applications s) = Some a
           \<and> (c_role u = ''officer'' \<or> c_role u = ''admin'')
           \<and> app' = a\<lparr>applicationStatus := status,
                        history := history a @
                          [\<lparr>h_by = c_role u, h_at = date1 e,
                            h_status = status, h_remarks = remarks\<rparr>]\<rparr>
           \<and> applications (snd (post_applications_status u appId status remarks e s))
               = update_first (\<lambda>a. app_id a = appId)
                   (\<lambda>a. a\<lparr>applicationStatus := status,
                           history := history a @
                             [\<lparr>h_by = c_role u, h_at = date1 e,
                               h_status = status, h_remarks = remarks\<rparr>]\<rparr>)
                   (applications s)"
  using assms
  by (auto simp: post_applications_status_def authorizeRoles_def sendNotification_def Let_def
        split: option.splits if_splits)

text \<open>
  Claim C7. A status update that succeeds was made by an officer or an admin, and it
  replaces the first application with the given id by one whose history is the old
  history followed by exactly one record (the caller's role, the date, the status, the
  remarks). Across every sequence of submissions, payments, status updates and listings,
  every application of the store stays at its position with its id, and its old history
  is a prefix of its new one: the history is never truncated or reordered, and its
  length never decreases.
\<close>

theorem history_append_only:
  "(fst (post_applications_status u appId status remarks e s) = Inr app' \<longrightarrow>
      (c_role u = ''officer'' \<or> c_role u = ''admin'')
    \<and> (\<exists>i < length (applications s).
          app_id (applications s ! i) = appId
        \<and> (\<forall>j < i. app_id (applications s ! j) \<noteq> appId)
        \<and> applications (snd (post_applications_status u appId status remarks e s))
            = (applications s)[i := app']
        \<and> history app' = history (applications s ! i) @
            [\<lparr>h_by = c_role u, h_at = date1 e, h_status = status, h_remarks = remarks\<rparr>]))
 \<and> (\<forall>i < length (applications s).
        i < length (applications (run ops s))
      \<and> app_id (applications (run ops s) ! i) = app_id (applications s ! i)
      \<and> prefix (history (applications s ! i)) (history (applications (run ops s) ! i))
      \<and> length (history (applications s ! i))
          \<le> length (history (applications (run ops s) ! i)))"
proof (rule conjI)
  let ?f = "\<lambda>a. a\<lparr>applicationStatus := status,
                    history := history a @
                      [\<lparr>h_by = c_role u, h_at = date1 e,
                        h_status = status, h_remarks = remarks\<rparr>]\<rparr>"
  show "fst (post_applications_status u appId status remarks e s) = Inr app' \<longrightarrow>
      (c_role u = ''officer'' \<or> c_role u = ''admin'')
    \<and> (\<exists>i < length (applications s).
          app_id (applications s ! i) = appId
        \<and> (\<forall>j < i. app_id (applications s ! j) \<noteq> appId)
        \<and> applications (snd (post_applications_status u appId status remarks e s))
            = (applications s)[i := app']
        \<and> history app' = history (applications s ! i) @
            [\<lparr>h_by = c_role u, h_at = date1 e, h_status = status, h_remarks = remarks\<rparr>])"
  proof
    assume ok: "fst (post_applications_status u appId status remarks e s) = Inr app'"
    from status_update_success [OF ok] obtain a where
      a: "find (\<lambda>a. app_id a = appId) (applications s) = Some a"
      and role: "c_role u = ''officer'' \<or> c_role u = ''admin''"
      and app': "app' = ?f a"
      and apps: "applications (snd (post_applications_status u appId status remarks e s))
                   = update_first (\<lambda>a. app_id a = appId) ?f (applications s)"
      by blast
    from update_first_nth [OF a, of ?f] obtain i where
      i: "i < length (applications s)" "applications s ! i = a"
        "\<forall>j < i. app_id (applications s ! j) \<noteq> appId"
        "update_first (\<lambda>a. app_id a = appId) ?f (applications s) = (applications s)[i := ?f a]"
      by blast
    have "app_id a = appId"
      using a by (auto dest: find_Some_iff[THEN iffD1])
    with i apps app'
    have "\<exists>i < length (applications s).
            app_id (applications s ! i) = appId
          \<and> (\<forall>j < i. app_id (applications s ! j) \<noteq> appId)
          \<and> applications (snd (post_applications_status u appId status remarks e s))
              = (applications s)[i := app']
          \<and> history app' = history (applications s ! i) @
              [\<lparr>h_by = c_role u, h_at = date1 e, h_status = status, h_remarks = remarks\<rparr>]"
      by (intro exI[of _ i]) simp
    with role show "(c_role u = ''officer'' \<or> c_role u = ''admin'')
      \<and> (\<exists>i < length (applications s).
            app_id (applications s ! i) = appId
          \<and> (\<forall>j < i. app_id (applications s ! j) \<noteq> appId)
          \<and> applications (snd (post_applications_status u appId status remarks e s))
              = (applications s)[i := app']
          \<and> history app' = history (applications s ! i) @
              [\<lparr>h_by = c_role u, h_at = date1 e, h_status = status, h_remarks = remarks\<rparr>])"
      by (rule conjI)
  qed
next
  show "\<forall>i < length (applications s).
        i < length (applications (run ops s))
      \<and> app_id (applications (run ops s) ! i) = app_id (applications s ! i)
      \<and> prefix (history (applications s ! i)) (history (applications (run ops s) ! i))
      \<and> length (history (applications s ! i))
          \<le> length (history (applications (run ops s) ! i))"
  proof (intro allI impI)
    fix i
    assume "i < length (applications s)"
    from history_extends_nth [OF run_history_extends [of s ops] this]
    show "i < length (applications (run ops s))
      \<and> app_id (applications (run ops s) ! i) = app_id (applications s ! i)
      \<and> prefix (history (applications s ! i)) (history (applications (run ops s) ! i))
      \<and> length (history (applications s ! i))
          \<le> length (history (applications (run ops s) ! i))"
      by (auto dest: prefix_length_le)
  qed
qed

text \<open>
  The officer approves the submitted application: its history becomes the one record;
  after payment and approval the empty history of submission time is a prefix of it.
\<close>

theorem history_append_only_witness:
  "(\<exists>app'. fst (post_applications_status demo_officer ''id-1'' (JStr ''approved'')
                  (JStr ''verified'') env3 submitted_state) = Inr app'
         \<and> applications (snd (post_applications_status demo_officer ''id-1'' (JStr ''approved'')
                                 (JStr ''verified'') env3 submitted_state)) = [app']
         \<and> history app' = [\<lparr>h_by = ''officer'', h_at = 3, h_status = JStr ''approved'',
                              h_remarks = JStr ''verified''\<rparr>])
 \<and> 0 < length (applications (run approve_ops submitted_state))
 \<and> prefix (history (applications submitted_state ! 0))
      (history (applications (run approve_ops submitted_state) ! 0))"
proof -
  let ?app' = "(hd (applications submitted_state))
                 \<lparr>applicationStatus := JStr ''approved'',
                  history := [\<lparr>h_by = ''officer'', h_at = 3, h_status = JStr ''approved'',
                               h_remarks = JStr ''verified''\<rparr>]\<rparr>"
  let ?r = "post_applications_status demo_officer ''id-1'' (JStr ''approved'')
              (JStr ''verified'') env3 submitted_state"
  have ok: "fst ?r = Inr ?app'"
    by (simp add: post_applications_status_def authorizeRoles_def demo_officer_def
          submitted_state_eq demo_state_def env3_def sendNotification_def Let_def)
  have len: "length (applications submitted_state) = 1"
    and hist: "history (applications submitted_state ! 0) = []"
    by (simp_all add: submitted_state_eq)
  note inst = history_append_only [of demo_officer "''id-1''" "JStr ''approved''"
               "JStr ''verified''" env3 submitted_state ?app' approve_ops]
  from inst ok obtain i where
    i: "i < length (applications submitted_state)"
      "applications (snd ?r) = (applications submitted_state)[i := ?app']"
    by blast
  from i(1) len have "i = 0" by simp
  with i(2) len have "applications (snd ?r) = [?app']"
    by (cases "applications submitted_state") simp_all
  with ok have first: "\<exists>app'. fst ?r = Inr app' \<and> applications (snd ?r) = [app']
         \<and> history app' = [\<lparr>h_by = ''officer'', h_at = 3, h_status = JStr ''approved'',
                              h_remarks = JStr ''verified''\<rparr>]"
    by simp
  from inst len have "0 < length (applications (run approve_ops submitted_state))
     \<and> prefix (history (applications submitted_state ! 0))
          (history (applications (run approve_ops submitted_state) ! 0))"
    by simp
  with first show ?thesis by blast
qed

subsection \<open>Notifications of a caller without a user record\<close>

lemma filter_throwing_TypeError:
  "filter_throwing (\<lambda>n. Inl TypeError) ns = (if ns = [] then Inr [] else Inl TypeError)"
  by (cases ns) simp_all

lemma filter_throwing_Inr:
  "filter_throwing (\<lambda>n. Inr (p n)) ns = Inr (filter p ns)"
  by (induction ns) simp_all

lemma reset_state_eq: "reset_state = demo_state"
  by (simp add: reset_state_def post_sample_reset_def authorizeRoles_def demo_admin_def
        registered_state_def submitted_state_eq demo_state_def)

text \<open>
  Claim C10, as stated, fails: \<^verbatim>\<open>user.id\<close> is read inside the callback of
  \<^verbatim>\<open>filter\<close>, which does not run on an empty array. The reset that removes the second
  citizen's user record also empties the notification store, and the second citizen's
  call right after it returns the empty list, not a runtime error.
\<close>

theorem notifications_after_reset_empty:
  "c_id other_citizen \<in> set (map u_id (users registered_state))
 \<and> c_id other_citizen \<notin> set (map u_id (users reset_state))
 \<and> fst (get_notifications other_citizen reset_state) = Inr []
 \<and> fst (get_notifications other_citizen reset_state) \<noteq> Inl TypeError"
  by (simp add: get_notifications_def authorizeRoles_def other_citizen_def reset_state_eq
        registered_state_def submitted_state_eq demo_state_def)

text \<open>
  Claim C10, amended. For a caller with one of the three roles whose user id is not in
  the user store: when the notification store is not empty, the call reads \<^verbatim>\<open>.id\<close> of
  the absent user record and fails with a TypeError; when the store is empty, it returns
  the empty list. The state is unchanged in both cases.
\<close>

theorem notifications_unknown_user:
  assumes "c_role u \<in> {''citizen'', ''officer'', ''admin''}"
    and "c_id u \<notin> set (map u_id (users s))"
  shows "get_notifications u s
           = (if notifications s = [] then Inr [] else Inl TypeError, s)"
proof -
  have "find (\<lambda>usr. u_id usr = c_id u) (users s) = None"
    using assms(2) by (force simp: find_None_iff)
  moreover have "authorizeRoles [''citizen'', ''officer'', ''admin''] u = None"
    using assms(1) by (auto simp: authorizeRoles_def)
  ultimately show ?thesis
    by (simp add: get_notifications_def filter_throwing_TypeError)
qed

text \<open>
  A caller whose id no user record has: with one notification in the store the call
  throws; after the reset, with none in the store, it returns the empty list.
\<close>

theorem notifications_unknown_user_witness:
  "get_notifications other_citizen submitted_state = (Inl TypeError, submitted_state)
 \<and> get_notifications other_citizen reset_state = (Inr [], reset_state)"
proof -
  have "c_role other_citizen \<in> {''citizen'', ''officer'', ''admin''}"
    by (simp add: other_citizen_def)
  moreover have "c_id other_citizen \<notin> set (map u_id (users submitted_state))"
    and "c_id other_citizen \<notin> set (map u_id (users reset_state))"
    by (simp_all add: other_citizen_def submitted_state_eq reset_state_eq demo_state_def)
  moreover have "notifications submitted_state \<noteq> []" and "notifications reset_state = []"
    by (simp_all add: submitted_state_eq reset_state_eq demo_state_def)
  ultimately show ?thesis
    using notifications_unknown_user [of other_citizen submitted_state]
      notifications_unknown_user [of other_citizen reset_state]
    by simp
qed

end
